theory Spec2Isabelle
  imports Complex_Main "HOL-Library.Sublist" "HOL-Library.AList"
begin

section \<open>JavaScript strings\<close>

text \<open>
  A JavaScript string is a sequence of UTF-16 code units; a code unit is modelled as a
  natural number. ASCII literals of the source are written with \<open>js\<close>; the arrow
  (U+2192), the en dash (U+2013), the double quote and the line feed are written as numbers.
\<close>

type_synonym jsstring = "nat list"

definition js :: "string \<Rightarrow> jsstring" where
  "js s = map of_char s"

text \<open>White space and line terminators of ECMAScript: what \<open>trim\<close> strips and \<open>\s\<close> matches.\<close>

definition isLineTerminator :: "nat \<Rightarrow> bool" where
  "isLineTerminator c \<longleftrightarrow> c = 10 \<or> c = 13 \<or> c = 8232 \<or> c = 8233"

definition isWhiteSpace :: "nat \<Rightarrow> bool" where
  "isWhiteSpace c \<longleftrightarrow>
     c = 9 \<or> c = 10 \<or> c = 11 \<or> c = 12 \<or> c = 13 \<or> c = 32 \<or> c = 160 \<or> c = 5760 \<or>
     (8192 \<le> c \<and> c \<le> 8202) \<or> c = 8232 \<or> c = 8233 \<or> c = 8239 \<or> c = 8287 \<or>
     c = 12288 \<or> c = 65279"

definition isDigit :: "nat \<Rightarrow> bool" where
  "isDigit c \<longleftrightarrow> 48 \<le> c \<and> c \<le> 57"

definition trim :: "jsstring \<Rightarrow> jsstring" where
  "trim s = rev (dropWhile isWhiteSpace (rev (dropWhile isWhiteSpace s)))"

definition startsWith :: "jsstring \<Rightarrow> jsstring \<Rightarrow> bool" where
  "startsWith s p = prefix p s"

fun includesStr :: "jsstring \<Rightarrow> jsstring \<Rightarrow> bool" where
  "includesStr [] p = (p = [])"
| "includesStr (c # cs) p = (startsWith (c # cs) p \<or> includesStr cs p)"

text \<open>
  The \<open>i\<close> flag of a regular expression, on the letters A to Z: without the \<open>u\<close> flag
  a code unit from 128 on never matches an ASCII pattern character, so comparing through
  \<open>lowerChar\<close> is exact.
\<close>

definition lowerChar :: "nat \<Rightarrow> nat" where
  "lowerChar c = (if 65 \<le> c \<and> c \<le> 90 then c + 32 else c)"

text \<open>
  \<open>String.prototype.toLowerCase\<close> is a function of the library, not of the repository.
  The parser is modelled for an arbitrary function in its place: every function below
  that lower-cases a string takes it as its first argument, named \<open>toLowerCase\<close>, and
  a theorem with this argument free holds for the library's function. The one fact about
  the library's function that a proof may need is \<open>lowers_ascii\<close>: on a string whose code
  units are all below 128 it maps A to Z to a to z and changes nothing else.
  \<open>asciiLowerCase\<close> is that mapping. It takes the argument's place in the concrete
  documents of this theory only, where every string that the parser lower-cases (a
  heading, a label before a colon) consists of code units below 128.
\<close>

definition asciiLowerCase :: "jsstring \<Rightarrow> jsstring" where
  "asciiLowerCase s = map lowerChar s"


definition startsWithCI :: "jsstring \<Rightarrow> jsstring \<Rightarrow> bool" where
  "startsWithCI s p = prefix (map lowerChar p) (map lowerChar s)"

text \<open>\<open>s.split(c)\<close> for a one-character separator, and \<open>xs.join('\n')\<close>.\<close>

fun split_on :: "nat \<Rightarrow> jsstring \<Rightarrow> jsstring list" where
  "split_on sep [] = [[]]"
| "split_on sep (c # cs) =
     (if c = sep then [] # split_on sep cs
      else (case split_on sep cs of
              [] \<Rightarrow> [[c]]
            | p # ps \<Rightarrow> (c # p) # ps))"

fun join_lines :: "jsstring list \<Rightarrow> jsstring" where
  "join_lines [] = []"
| "join_lines [l] = l"
| "join_lines (l # m # ls) = l @ 10 # join_lines (m # ls)"

text \<open>\<open>s.replace(p, '')\<close> for a string pattern: the first occurrence of \<open>p\<close> is removed.\<close>

fun replace_str :: "jsstring \<Rightarrow> jsstring \<Rightarrow> jsstring" where
  "replace_str p [] = []"
| "replace_str p (c # cs) =
     (if startsWith (c # cs) p then drop (length p) (c # cs) else c # replace_str p cs)"

section \<open>Regular expressions of the parser\<close>

text \<open>
  Each regular expression of \<open>parseTrainingPlan\<close> is a function that matches at the head
  of its argument. A matcher used for splitting or for a global search returns the length
  of the match minus one (no expression of the parser matches the empty string).
\<close>

text \<open>Leftmost match of an unanchored expression: the first suffix where \<open>f\<close> succeeds.\<close>

fun first_match :: "(jsstring \<Rightarrow> 'a option) \<Rightarrow> jsstring \<Rightarrow> 'a option" where
  "first_match f [] = f []"
| "first_match f (c # cs) = (case f (c # cs) of Some r \<Rightarrow> Some r | None \<Rightarrow> first_match f cs)"

text \<open>\<open>s.split(re)\<close> for an expression without groups that cannot match the empty string.\<close>

fun split_re :: "(jsstring \<Rightarrow> nat option) \<Rightarrow> jsstring \<Rightarrow> jsstring \<Rightarrow> jsstring list" where
  "split_re m acc [] = [rev acc]"
| "split_re m acc (c # cs) =
     (case m (c # cs) of
        Some n \<Rightarrow> rev acc # split_re m [] (drop n cs)
      | None \<Rightarrow> split_re m (c # acc) cs)"

text \<open>\<open>s.match(re)\<close> with the \<open>g\<close> flag: every match, left to right, without overlap.\<close>

fun match_all :: "(jsstring \<Rightarrow> nat option) \<Rightarrow> jsstring \<Rightarrow> jsstring list" where
  "match_all m [] = []"
| "match_all m (c # cs) =
     (case m (c # cs) of
        Some n \<Rightarrow> take (Suc n) (c # cs) # match_all m (drop n cs)
      | None \<Rightarrow> match_all m cs)"

text \<open>\<open>/^-\s*/\<close> replaced by the empty string.\<close>

definition strip_dash :: "jsstring \<Rightarrow> jsstring" where
  "strip_dash s = (case s of [] \<Rightarrow> [] | c # cs \<Rightarrow> if c = 45 then dropWhile isWhiteSpace cs else s)"

text \<open>
  \<open>.*?\*\*\<close> at the head of the argument: the number of code units up to and including
  the first \<open>**\<close> that is reached without crossing a line terminator.
\<close>

fun lazy_bold :: "jsstring \<Rightarrow> nat option" where
  "lazy_bold [] = None"
| "lazy_bold (c # cs) =
     (if startsWith (c # cs) [42, 42] then Some 2
      else if isLineTerminator c then None
      else map_option Suc (lazy_bold cs))"

text \<open>\<open>/^\*\*.*?\*\*:?\s*/\<close> replaced by the empty string.\<close>

definition strip_bold_label :: "jsstring \<Rightarrow> jsstring" where
  "strip_bold_label s =
     (if startsWith s [42, 42] then
        (case lazy_bold (drop 2 s) of
           None \<Rightarrow> s
         | Some n \<Rightarrow>
             (let r = drop n (drop 2 s);
                  r' = (if startsWith r [58] then drop 1 r else r)
              in dropWhile isWhiteSpace r'))
      else s)"

text \<open>\<open>/\*\*/g\<close> replaced by the empty string.\<close>

fun remove_bold :: "jsstring \<Rightarrow> jsstring" where
  "remove_bold (a # b # cs) =
     (if a = 42 \<and> b = 42 then remove_bold cs else a # remove_bold (b # cs))"
| "remove_bold cs = cs"

text \<open>The bullet lines of a body, as every list-valued field extracts them:
  \<open>content.split('\n').filter(l => l.trim().startsWith('-')).map(l => l.replace(/^-\s*/, '').trim())\<close>.\<close>

definition bullets :: "jsstring \<Rightarrow> jsstring list" where
  "bullets content =
     map (\<lambda>l. trim (strip_dash l))
       (filter (\<lambda>l. startsWith (trim l) [45]) (split_on 10 content))"

text \<open>\<open>s.replace(re, '')\<close> with the \<open>g\<close> flag: every match is removed.\<close>

fun remove_all :: "(jsstring \<Rightarrow> nat option) \<Rightarrow> jsstring \<Rightarrow> jsstring" where
  "remove_all m [] = []"
| "remove_all m (c # cs) =
     (case m (c # cs) of
        Some n \<Rightarrow> remove_all m (drop n cs)
      | None \<Rightarrow> c # remove_all m cs)"

text \<open>\<open>/\[.*?\]/\<close> at the head of the argument.\<close>

fun lazy_close :: "jsstring \<Rightarrow> nat option" where
  "lazy_close [] = None"
| "lazy_close (c # cs) =
     (if c = 93 then Some 0
      else if isLineTerminator c then None
      else map_option Suc (lazy_close cs))"

definition bracketed :: "jsstring \<Rightarrow> nat option" where
  "bracketed s = (case s of [] \<Rightarrow> None | c # cs \<Rightarrow> if c = 91 then map_option Suc (lazy_close cs) else None)"

text \<open>\<open>/[:\[\]#*]/g\<close> replaced by the empty string, and \<open>/[:\-\<endash>]/g\<close> replaced by a space.\<close>

definition strip_markup :: "jsstring \<Rightarrow> jsstring" where
  "strip_markup s = filter (\<lambda>c. \<not> (c = 58 \<or> c = 91 \<or> c = 93 \<or> c = 35 \<or> c = 42)) s"

definition dash_to_space :: "jsstring \<Rightarrow> jsstring" where
  "dash_to_space s = map (\<lambda>c. if c = 58 \<or> c = 45 \<or> c = 8211 then 32 else c) s"

text \<open>\<open>/.*?[:"]\s*/\<close> replaced once by the empty string.\<close>

fun lazy_label :: "jsstring \<Rightarrow> nat option" where
  "lazy_label [] = None"
| "lazy_label (c # cs) =
     (if c = 58 \<or> c = 34 then Some 1
      else if isLineTerminator c then None
      else map_option Suc (lazy_label cs))"

fun strip_cue_label :: "jsstring \<Rightarrow> jsstring" where
  "strip_cue_label [] = []"
| "strip_cue_label (c # cs) =
     (case lazy_label (c # cs) of
        Some n \<Rightarrow> dropWhile isWhiteSpace (drop n (c # cs))
      | None \<Rightarrow> c # strip_cue_label cs)"

text \<open>
  \<open>/###\s*Priority\s*\d+/i\<close>, \<open>/###\s*Drill\s*\d+/i\<close> and \<open>/###\s*Day\s*\d+/i\<close> at the
  head of the argument, the word being the parameter.
\<close>

definition sub_heading :: "jsstring \<Rightarrow> jsstring \<Rightarrow> nat option" where
  "sub_heading word s =
     (if startsWith s (js ''###'') then
        (let r1 = dropWhile isWhiteSpace (drop 3 s) in
         if startsWithCI r1 word then
           (let r2 = dropWhile isWhiteSpace (drop (length word) r1);
                ds = takeWhile isDigit r2
            in if ds = [] then None
               else Some (length s - length r2 + length ds - 1))
         else None)
      else None)"

text \<open>\<open>/Current:\s*(\d+).*?\<rightarrow>.*?(\d+)/i\<close> at the head of the argument: the two groups.\<close>

fun lazy_arrow :: "jsstring \<Rightarrow> jsstring option" where
  "lazy_arrow [] = None"
| "lazy_arrow (c # cs) =
     (if c = 8594 then Some cs
      else if isLineTerminator c then None
      else lazy_arrow cs)"

fun lazy_digits :: "jsstring \<Rightarrow> jsstring option" where
  "lazy_digits [] = None"
| "lazy_digits (c # cs) =
     (if isDigit c then Some (takeWhile isDigit (c # cs))
      else if isLineTerminator c then None
      else lazy_digits cs)"

definition current_at :: "jsstring \<Rightarrow> (jsstring \<times> jsstring) option" where
  "current_at s =
     (if startsWithCI s (js ''Current:'') then
        (let r = dropWhile isWhiteSpace (drop 8 s);
             d = takeWhile isDigit r
         in if d = [] then None
            else (case lazy_arrow (dropWhile isDigit r) of
                    None \<Rightarrow> None
                  | Some r2 \<Rightarrow> map_option (\<lambda>t. (d, t)) (lazy_digits r2)))
      else None)"

text \<open>\<open>/Primary Focus|Secondary Focus|Integration|Refinement/i\<close> at the head of the argument.\<close>

definition focus_word :: "jsstring \<Rightarrow> nat option" where
  "focus_word s =
     (if startsWithCI s (js ''Primary Focus'') then Some 12
      else if startsWithCI s (js ''Secondary Focus'') then Some 14
      else if startsWithCI s (js ''Integration'') then Some 10
      else if startsWithCI s (js ''Refinement'') then Some 9
      else None)"

text \<open>
  The expressions of the daily plan at the head of the argument: \<open>/\*\*Run\s*[\d-]+/i\<close>,
  \<open>/\*\*Run\s*[\d-]+[^*]*\*\*/i\<close>, \<open>/Run\s*([\d-]+)/i\<close> and \<open>/:\s*([^*]+)/i\<close>.
\<close>

definition isRunChar :: "nat \<Rightarrow> bool" where
  "isRunChar c \<longleftrightarrow> isDigit c \<or> c = 45"

definition run_number :: "jsstring \<Rightarrow> jsstring option" where
  "run_number s =
     (if startsWithCI s (js ''Run'') then
        (let ds = takeWhile isRunChar (dropWhile isWhiteSpace (drop 3 s))
         in if ds = [] then None else Some ds)
      else None)"

definition run_split :: "jsstring \<Rightarrow> nat option" where
  "run_split s =
     (if startsWith s [42, 42] then
        (case run_number (drop 2 s) of
           None \<Rightarrow> None
         | Some ds \<Rightarrow>
             Some (length s - length (dropWhile isWhiteSpace (drop 5 s)) + length ds - 1))
      else None)"

definition run_header :: "jsstring \<Rightarrow> nat option" where
  "run_header s =
     (if startsWith s [42, 42] then
        (case run_number (drop 2 s) of
           None \<Rightarrow> None
         | Some ds \<Rightarrow>
             (let r = dropWhile (\<lambda>c. c \<noteq> 42)
                        (drop (length ds) (dropWhile isWhiteSpace (drop 5 s)))
              in if startsWith r [42, 42] then Some (length s - length r + 1) else None))
      else None)"

definition phase_at :: "jsstring \<Rightarrow> jsstring option" where
  "phase_at s =
     (case s of
        [] \<Rightarrow> None
      | c # cs \<Rightarrow>
          if c = 58 then
            (let w = takeWhile isWhiteSpace cs;
                 r = dropWhile isWhiteSpace cs
             in if r \<noteq> [] \<and> hd r \<noteq> 42 then Some (takeWhile (\<lambda>c. c \<noteq> 42) r)
                else if w \<noteq> [] then Some [last w]
                else None)
          else None)"

text \<open>
  \<open>/###\s*Week\s*1[-\<endash>]2/i\<close> (and 3, 4) at the head of the argument: the length of the
  match; and \<open>[\s\S]*?(?=###|$)\<close>: the text up to the next \<open>###\<close> or the end.
\<close>

definition week_heading :: "nat \<Rightarrow> nat \<Rightarrow> jsstring \<Rightarrow> nat option" where
  "week_heading a b s =
     (if startsWith s (js ''###'') then
        (let r1 = dropWhile isWhiteSpace (drop 3 s) in
         if startsWithCI r1 (js ''Week'') then
           (case dropWhile isWhiteSpace (drop 4 r1) of
              x # y # z # r2 \<Rightarrow>
                if x = a \<and> (y = 45 \<or> y = 8211) \<and> z = b then Some (length s - length r2)
                else None
            | _ \<Rightarrow> None)
         else None)
      else None)"

fun upto_hashes :: "jsstring \<Rightarrow> jsstring" where
  "upto_hashes [] = []"
| "upto_hashes (c # cs) =
     (if startsWith (c # cs) (js ''###'') then [] else c # upto_hashes cs)"

definition week_match :: "nat \<Rightarrow> nat \<Rightarrow> jsstring \<Rightarrow> jsstring option" where
  "week_match a b content =
     first_match
       (\<lambda>s. map_option (\<lambda>n. take n s @ upto_hashes (drop n s)) (week_heading a b s))
       content"

text \<open>
  \<open>/\*\*(Run\s*[\d-]+)\*\*:?\s*(.*)/i\<close> and \<open>/(Run\s*[\d-]+):?\s*(.*)/i\<close> at the head of
  the argument: the two groups.
\<close>

definition activity_tail :: "jsstring \<Rightarrow> jsstring" where
  "activity_tail t =
     takeWhile (\<lambda>c. \<not> isLineTerminator c)
       (dropWhile isWhiteSpace (if startsWith t [58] then drop 1 t else t))"

definition plain_run :: "jsstring \<Rightarrow> (jsstring \<times> jsstring) option" where
  "plain_run s =
     (case run_number s of
        None \<Rightarrow> None
      | Some ds \<Rightarrow>
          (let n = length s - length (dropWhile isWhiteSpace (drop 3 s)) + length ds
           in Some (take n s, activity_tail (drop n s))))"

definition bold_run :: "jsstring \<Rightarrow> (jsstring \<times> jsstring) option" where
  "bold_run s =
     (if startsWith s [42, 42] then
        (case run_number (drop 2 s) of
           None \<Rightarrow> None
         | Some ds \<Rightarrow>
             (let n = length (drop 2 s) - length (dropWhile isWhiteSpace (drop 5 s)) + length ds;
                  r = drop n (drop 2 s)
              in if startsWith r [42, 42]
                 then Some (take n (drop 2 s), activity_tail (drop 2 r))
                 else None))
      else None)"

text \<open>\<open>s.indexOf(c)\<close> for one code unit, and \<open>s.substring\<close> with its clamping of negative indices.\<close>

definition indexOf :: "jsstring \<Rightarrow> nat \<Rightarrow> int" where
  "indexOf s c = (if c \<in> set s then int (length (takeWhile (\<lambda>x. x \<noteq> c) s)) else - 1)"

definition substring :: "jsstring \<Rightarrow> int \<Rightarrow> int \<Rightarrow> jsstring" where
  "substring s a b = take (nat (max a b) - nat (min a b)) (drop (nat (min a b)) s)"

definition substring_from :: "jsstring \<Rightarrow> int \<Rightarrow> jsstring" where
  "substring_from s a = drop (nat a) s"

section \<open>The parsed plan\<close>

text \<open>The objects that \<open>parseTrainingPlan\<close> builds, one record for each object literal.\<close>

record focus =
  focus_drill :: jsstring
  focus_cue :: jsstring
  focus_details :: "jsstring list"

record priority =
  priority_name :: jsstring
  priority_current :: jsstring
  priority_target :: jsstring
  priority_drill :: jsstring
  priority_terrain :: jsstring
  priority_details :: "jsstring list"

record drill =
  drill_name :: jsstring
  drill_focus :: jsstring
  targetMetric :: jsstring
  why :: jsstring
  execution :: jsstring
  runsPerSession :: jsstring
  turnsPerRun :: jsstring
  drill_terrain :: jsstring
  successFeels :: jsstring
  commonMistake :: jsstring
  drill_progression :: jsstring

record run_phase =
  runs :: jsstring
  phase :: jsstring
  phase_details :: "jsstring list"

record day =
  dayNum :: nat
  day_name :: jsstring
  primaryFocus :: jsstring
  secondary :: jsstring
  day_terrain :: jsstring
  goal :: jsstring
  day_details :: "jsstring list"

record weeks =
  week1_2 :: "jsstring list"
  week3_4 :: "jsstring list"

record session =
  run :: jsstring
  activity :: jsstring

text \<open>
  A plain object with string values: its own properties in the order of their creation.
  Assigning to an existing key keeps the key's place; assigning a string to \<open>__proto__\<close>
  creates no property (the setter inherited from \<open>Object.prototype\<close> ignores a value
  that is not an object). \<open>Object.keys\<close> lists the array indices first, in ascending
  numeric order, then the other keys in the order of their creation. \<open>obj_get\<close> reads an
  own property; the parser reads only under the keys that \<open>Object.keys\<close> lists.
\<close>

type_synonym object = "(jsstring \<times> jsstring) list"

definition obj_set :: "object \<Rightarrow> jsstring \<Rightarrow> jsstring \<Rightarrow> object" where
  "obj_set obj k v = (if k = js ''__proto__'' then obj else AList.update k v obj)"

definition obj_get :: "object \<Rightarrow> jsstring \<Rightarrow> jsstring option" where
  "obj_get obj k = map_of obj k"

definition digits_value :: "jsstring \<Rightarrow> nat" where
  "digits_value k = foldl (\<lambda>n c. 10 * n + (c - 48)) 0 k"

definition isArrayIndex :: "jsstring \<Rightarrow> bool" where
  "isArrayIndex k \<longleftrightarrow>
     k \<noteq> [] \<and> list_all isDigit k \<and> (if hd k = 48 then k = [48] else True) \<and>
     digits_value k < 4294967295"

definition object_keys :: "object \<Rightarrow> jsstring list" where
  "object_keys obj =
     sort_key digits_value (filter isArrayIndex (map fst obj)) @
     filter (\<lambda>k. \<not> isArrayIndex k) (map fst obj)"

record sections =
  title :: jsstring
  bigPicture :: "jsstring list"
  immediateFocus :: focus
  drills :: "drill list"
  dailyPlan :: "run_phase list"
  weeklySchedule :: "day list"
  weekPlan :: "priority list"
  strengths :: "jsstring list"
  progression :: weeks
  sessionPlan :: "session list"
  checkpoints :: "jsstring list"
  mentalCues :: "jsstring list"
  traps :: "jsstring list"
  rawSections :: object

definition initial_sections :: sections where
  "initial_sections =
     \<lparr>title = [], bigPicture = [],
      immediateFocus = \<lparr>focus_drill = [], focus_cue = [], focus_details = []\<rparr>,
      drills = [], dailyPlan = [], weeklySchedule = [], weekPlan = [], strengths = [],
      progression = \<lparr>week1_2 = [], week3_4 = []\<rparr>,
      sessionPlan = [], checkpoints = [], mentalCues = [], traps = [], rawSections = []\<rparr>"

text \<open>An exception of the JavaScript: reading a property of \<open>undefined\<close>.\<close>

datatype error = TypeError

fun fold_err :: "('s \<Rightarrow> 'a \<Rightarrow> error + 's) \<Rightarrow> 'a list \<Rightarrow> 's \<Rightarrow> error + 's" where
  "fold_err f [] s = Inr s"
| "fold_err f (x # xs) s = (case f s x of Inl e \<Rightarrow> Inl e | Inr s' \<Rightarrow> fold_err f xs s')"

fun map_err :: "('a \<Rightarrow> error + 'b) \<Rightarrow> 'a list \<Rightarrow> error + 'b list" where
  "map_err f [] = Inr []"
| "map_err f (x # xs) =
     (case f x of
        Inl e \<Rightarrow> Inl e
      | Inr y \<Rightarrow> (case map_err f xs of Inl e \<Rightarrow> Inl e | Inr ys \<Rightarrow> Inr (y # ys)))"

section \<open>The line scan\<close>

text \<open>
  The \<open>for\<close> loop over the lines, with the plan being built, \<open>currentSection\<close> and
  \<open>currentContent\<close> as its state, and the saving of the last section after it.
\<close>

definition save_section :: "sections \<Rightarrow> jsstring \<Rightarrow> jsstring list \<Rightarrow> sections" where
  "save_section s currentSection currentContent =
     (if currentSection \<noteq> []
      then s\<lparr>rawSections := obj_set (rawSections s) currentSection (join_lines currentContent)\<rparr>
      else s)"

fun scan :: "jsstring list \<Rightarrow> sections \<Rightarrow> jsstring \<Rightarrow> jsstring list \<Rightarrow> sections" where
  "scan [] s currentSection currentContent = save_section s currentSection currentContent"
| "scan (line # rest) s currentSection currentContent =
     (if startsWith line (js ''# '')
      then scan rest (s\<lparr>title := trim (replace_str (js ''# '') line)\<rparr>)
             currentSection currentContent
      else if startsWith line (js ''## '')
      then scan rest (save_section s currentSection currentContent)
             (trim (replace_str (js ''## '') line)) []
      else if startsWith line (js ''### '')
      then scan rest s currentSection (currentContent @ [line])
      else scan rest s currentSection (currentContent @ [line]))"

section \<open>The fields\<close>

definition nonblank :: "jsstring \<Rightarrow> bool" where
  "nonblank l \<longleftrightarrow> trim l \<noteq> []"

subsection \<open>immediateFocus\<close>

definition is_cue_line :: "jsstring \<Rightarrow> bool" where
  "is_cue_line l \<longleftrightarrow>
     includesStr l (js ''Mental cue'') \<or> includesStr l (js ''mental cue'') \<or>
     includesStr l (js ''Cue:'')"

definition cue_text :: "jsstring \<Rightarrow> jsstring" where
  "cue_text l = trim (filter (\<lambda>c. c \<noteq> 34) (strip_cue_label l))"

definition detail_text :: "jsstring \<Rightarrow> jsstring" where
  "detail_text l = trim (strip_bold_label (strip_dash l))"

definition focus_of :: "focus \<Rightarrow> jsstring \<Rightarrow> focus" where
  "focus_of f content =
     (let lines = filter nonblank (split_on 10 content)
      in f\<lparr>focus_cue := foldl (\<lambda>cue l. if is_cue_line l then cue_text l else cue) (focus_cue f) lines,
           focus_details := filter (\<lambda>l. l \<noteq> [] \<and> \<not> startsWith l [35]) (map detail_text lines)\<rparr>)"

subsection \<open>weekPlan\<close>

definition empty_priority :: priority where
  "empty_priority =
     \<lparr>priority_name = [], priority_current = [], priority_target = [], priority_drill = [],
      priority_terrain = [], priority_details = []\<rparr>"

definition set_current :: "priority \<Rightarrow> jsstring \<Rightarrow> priority" where
  "set_current p line =
     (if includesStr line (js ''Current:'') \<and> includesStr line [8594] then
        (case first_match current_at line of
           Some (c, t) \<Rightarrow> p\<lparr>priority_current := c, priority_target := t\<rparr>
         | None \<Rightarrow> p)
      else p)"

definition name_from_heading :: "priority \<Rightarrow> jsstring \<Rightarrow> priority" where
  "name_from_heading p line =
     (if priority_name p = [] \<and> startsWith line (js ''###'')
      then p\<lparr>priority_name := trim (remove_all bracketed (replace_str (js ''###'') line))\<rparr>
      else p)"

text \<open>
  \<open>const [label, value] = line.split(':').map(s => s.trim())\<close> and the three tests on the
  label: a missing \<open>label\<close>, or a missing \<open>value\<close> that is used, is a \<open>TypeError\<close>.
\<close>

fun set_labelled :: "(jsstring \<Rightarrow> jsstring) \<Rightarrow> priority \<Rightarrow> jsstring \<Rightarrow> jsstring list \<Rightarrow> error + priority" where
  "set_labelled toLowerCase p line [] = Inl TypeError"
| "set_labelled toLowerCase p line [label] =
     (if includesStr (toLowerCase label) (js ''drill'') \<or>
         includesStr (toLowerCase label) (js ''terrain'')
      then Inl TypeError
      else Inr (name_from_heading p line))"
| "set_labelled toLowerCase p line (label # value # others) =
     (let p1 = (if includesStr (toLowerCase label) (js ''drill'')
                then p\<lparr>priority_drill := remove_bold value\<rparr> else p);
          p2 = (if includesStr (toLowerCase label) (js ''terrain'')
                then p1\<lparr>priority_terrain := remove_bold value\<rparr> else p1)
      in Inr (name_from_heading p2 line))"

definition priority_line :: "(jsstring \<Rightarrow> jsstring) \<Rightarrow> priority \<Rightarrow> jsstring \<Rightarrow> error + priority" where
  "priority_line toLowerCase p line =
     (case (if includesStr line [58]
            then set_labelled toLowerCase (set_current p line) line (map trim (split_on 58 line))
            else Inr (set_current p line)) of
        Inl e \<Rightarrow> Inl e
      | Inr p' \<Rightarrow> Inr (p'\<lparr>priority_details := priority_details p' @ [detail_text line]\<rparr>))"

definition priority_of :: "(jsstring \<Rightarrow> jsstring) \<Rightarrow> jsstring \<Rightarrow> error + priority" where
  "priority_of toLowerCase block =
     (let lines = filter nonblank (split_on 10 block)
      in case fold_err (priority_line toLowerCase) lines empty_priority of
           Inl e \<Rightarrow> Inl e
         | Inr p \<Rightarrow>
             Inr (case lines of
                    [] \<Rightarrow> p
                  | l0 # ls \<Rightarrow>
                      if priority_name p = [] \<and> l0 \<noteq> []
                      then p\<lparr>priority_name := trim (strip_markup l0)\<rparr> else p))"

definition weekPlan_of :: "(jsstring \<Rightarrow> jsstring) \<Rightarrow> jsstring \<Rightarrow> error + priority list" where
  "weekPlan_of toLowerCase content =
     (case map_err (priority_of toLowerCase)
             (filter nonblank (split_re (sub_heading (js ''Priority'')) [] content)) of
        Inl e \<Rightarrow> Inl e
      | Inr ps \<Rightarrow> Inr (filter (\<lambda>p. priority_name p \<noteq> [] \<or> priority_drill p \<noteq> []) ps))"

subsection \<open>drills\<close>

definition empty_drill :: drill where
  "empty_drill =
     \<lparr>drill_name = [], drill_focus = [], targetMetric = [], why = [], execution = [],
      runsPerSession = [], turnsPerRun = [], drill_terrain = [], successFeels = [],
      commonMistake = [], drill_progression = []\<rparr>"

text \<open>\<open>lines.indexOf(line) === 0\<close> for a line of \<open>lines\<close>: it equals the first one.\<close>

definition is_first :: "jsstring list \<Rightarrow> jsstring \<Rightarrow> bool" where
  "is_first lines line = (case lines of [] \<Rightarrow> False | l0 # ls \<Rightarrow> l0 = line)"

definition clean_line :: "jsstring \<Rightarrow> jsstring" where
  "clean_line line = remove_bold (strip_dash line)"

definition label_of :: "(jsstring \<Rightarrow> jsstring) \<Rightarrow> jsstring \<Rightarrow> jsstring" where
  "label_of toLowerCase cleanLine = toLowerCase (substring cleanLine 0 (indexOf cleanLine 58))"

definition value_of :: "jsstring \<Rightarrow> jsstring" where
  "value_of cleanLine = trim (substring_from cleanLine (indexOf cleanLine 58 + 1))"

definition drill_labelled :: "drill \<Rightarrow> jsstring \<Rightarrow> jsstring \<Rightarrow> drill" where
  "drill_labelled d label v =
     (let d1 = (if includesStr label (js ''target metric'') then d\<lparr>targetMetric := v\<rparr> else d);
          d2 = (if includesStr label (js ''why this drill'') then d1\<lparr>why := v\<rparr> else d1);
          d3 = (if includesStr label (js ''execution'') then d2\<lparr>execution := v\<rparr> else d2);
          d4 = (if includesStr label (js ''runs per session'') then d3\<lparr>runsPerSession := v\<rparr> else d3);
          d5 = (if includesStr label (js ''turns per run'') then d4\<lparr>turnsPerRun := v\<rparr> else d4);
          d6 = (if includesStr label (js ''terrain'') then d5\<lparr>drill_terrain := v\<rparr> else d5);
          d7 = (if includesStr label (js ''success feels'') then d6\<lparr>successFeels := v\<rparr> else d6);
          d8 = (if includesStr label (js ''common mistake'') then d7\<lparr>commonMistake := v\<rparr> else d7)
      in if includesStr label (js ''progression'') then d8\<lparr>drill_progression := v\<rparr> else d8)"

definition drill_line :: "(jsstring \<Rightarrow> jsstring) \<Rightarrow> jsstring list \<Rightarrow> drill \<Rightarrow> jsstring \<Rightarrow> drill" where
  "drill_line toLowerCase lines d line =
     (let cleanLine = clean_line line;
          d1 = (if includesStr line [58]
                then drill_labelled d (label_of toLowerCase cleanLine) (value_of cleanLine) else d)
      in if drill_name d1 = [] \<and> is_first lines line
         then (let d2 = d1\<lparr>drill_name :=
                             trim (remove_all focus_word (dash_to_space cleanLine))\<rparr>
               in case first_match (\<lambda>t. map_option (\<lambda>n. take (Suc n) t) (focus_word t)) line of
                    Some w \<Rightarrow> d2\<lparr>drill_focus := w\<rparr>
                  | None \<Rightarrow> d2)
         else d1)"

definition drill_of :: "(jsstring \<Rightarrow> jsstring) \<Rightarrow> jsstring \<Rightarrow> drill" where
  "drill_of toLowerCase block =
     (let lines = filter nonblank (split_on 10 block)
      in foldl (drill_line toLowerCase lines) empty_drill lines)"

definition drills_of :: "(jsstring \<Rightarrow> jsstring) \<Rightarrow> jsstring \<Rightarrow> drill list" where
  "drills_of toLowerCase content =
     filter (\<lambda>d. drill_name d \<noteq> [] \<or> execution d \<noteq> [])
       (map (drill_of toLowerCase) (filter nonblank (split_re (sub_heading (js ''Drill'')) [] content)))"

subsection \<open>dailyPlan\<close>

text \<open>\<open>runBlocks[idx + 1] || ''\<close>: a missing block reads as the empty string.\<close>

definition block_or_empty :: "jsstring list \<Rightarrow> nat \<Rightarrow> jsstring" where
  "block_or_empty runBlocks i = (if i < length runBlocks then runBlocks ! i else [])"

definition run_entry :: "jsstring list \<Rightarrow> nat \<times> jsstring \<Rightarrow> run_phase" where
  "run_entry runBlocks ih =
     (case ih of (idx, runHeader) \<Rightarrow>
        \<lparr>runs = (case first_match run_number runHeader of Some r \<Rightarrow> r | None \<Rightarrow> []),
         phase = (case first_match phase_at runHeader of Some ph \<Rightarrow> trim ph | None \<Rightarrow> []),
         phase_details = bullets (block_or_empty runBlocks (idx + 1))\<rparr>)"

definition dailyPlan_of :: "jsstring \<Rightarrow> run_phase list" where
  "dailyPlan_of content =
     (let runBlocks = filter nonblank (split_re run_split [] content);
          runMatches = match_all run_header content
      in map (run_entry runBlocks) (enumerate 0 runMatches))"

subsection \<open>weeklySchedule\<close>

definition empty_day :: "nat \<Rightarrow> day" where
  "empty_day idx =
     \<lparr>dayNum = idx + 1, day_name = [], primaryFocus = [], secondary = [], day_terrain = [],
      goal = [], day_details = []\<rparr>"

definition day_labelled :: "day \<Rightarrow> jsstring \<Rightarrow> jsstring \<Rightarrow> day" where
  "day_labelled d label v =
     (let d1 = (if includesStr label (js ''primary focus'') then d\<lparr>primaryFocus := v\<rparr> else d);
          d2 = (if includesStr label (js ''secondary'') then d1\<lparr>secondary := v\<rparr> else d1);
          d3 = (if includesStr label (js ''terrain'') then d2\<lparr>day_terrain := v\<rparr> else d2);
          d4 = (if includesStr label (js ''goal'') then d3\<lparr>goal := v\<rparr> else d3)
      in if includesStr label (js ''add'')
         then d4\<lparr>day_details := day_details d4 @ [js ''Add: '' @ v]\<rparr> else d4)"

definition day_line :: "(jsstring \<Rightarrow> jsstring) \<Rightarrow> jsstring list \<Rightarrow> day \<Rightarrow> jsstring \<Rightarrow> day" where
  "day_line toLowerCase lines d line =
     (let cleanLine = clean_line line;
          d1 = (if includesStr line [58]
                then day_labelled d (label_of toLowerCase cleanLine) (value_of cleanLine) else d)
      in if day_name d1 = [] \<and> is_first lines line
         then d1\<lparr>day_name := trim (dash_to_space cleanLine)\<rparr>
         else d1)"

definition day_of :: "(jsstring \<Rightarrow> jsstring) \<Rightarrow> nat \<times> jsstring \<Rightarrow> day" where
  "day_of toLowerCase ib =
     (case ib of (idx, block) \<Rightarrow>
        (let lines = filter nonblank (split_on 10 block)
         in foldl (day_line toLowerCase lines) (empty_day idx) lines))"

definition dayBlocks :: "jsstring \<Rightarrow> jsstring list" where
  "dayBlocks content = filter nonblank (split_re (sub_heading (js ''Day'')) [] content)"

definition weeklySchedule_of :: "(jsstring \<Rightarrow> jsstring) \<Rightarrow> jsstring \<Rightarrow> day list" where
  "weeklySchedule_of toLowerCase content =
     filter (\<lambda>d. day_name d \<noteq> [] \<or> primaryFocus d \<noteq> [])
       (map (day_of toLowerCase) (enumerate 0 (dayBlocks content)))"

subsection \<open>progression\<close>

definition progression_of :: "weeks \<Rightarrow> jsstring \<Rightarrow> weeks" where
  "progression_of w content =
     (let w1 = (case week_match 49 50 content of
                  Some m \<Rightarrow> w\<lparr>week1_2 := bullets m\<rparr> | None \<Rightarrow> w)
      in case week_match 51 52 content of
           Some m \<Rightarrow> w1\<lparr>week3_4 := bullets m\<rparr> | None \<Rightarrow> w1)"

subsection \<open>sessionPlan\<close>

definition session_of :: "jsstring \<Rightarrow> session" where
  "session_of l =
     (case first_match bold_run l of
        Some (r, a) \<Rightarrow> \<lparr>run = r, activity = remove_bold a\<rparr>
      | None \<Rightarrow>
          (case first_match plain_run l of
             Some (r, a) \<Rightarrow> \<lparr>run = r, activity = remove_bold a\<rparr>
           | None \<Rightarrow> \<lparr>run = [], activity = trim (remove_bold l)\<rparr>))"

definition sessionPlan_of :: "jsstring \<Rightarrow> session list" where
  "sessionPlan_of content =
     filter (\<lambda>x. activity x \<noteq> [])
       (map session_of
          (filter (\<lambda>l. startsWith (trim l) [42, 42] \<or> startsWith (trim l) (js ''Run''))
             (split_on 10 content)))"

section \<open>Classification of a heading\<close>

text \<open>The twelve tests on \<open>keyLower\<close>, in the order of the source.\<close>

definition is_bigPicture :: "(jsstring \<Rightarrow> jsstring) \<Rightarrow> jsstring \<Rightarrow> bool" where
  "is_bigPicture toLowerCase key \<longleftrightarrow> includesStr (toLowerCase key) (js ''big picture'')"

definition is_immediateFocus :: "(jsstring \<Rightarrow> jsstring) \<Rightarrow> jsstring \<Rightarrow> bool" where
  "is_immediateFocus toLowerCase key \<longleftrightarrow> includesStr (toLowerCase key) (js ''immediate focus'')"

definition is_weekPlan :: "(jsstring \<Rightarrow> jsstring) \<Rightarrow> jsstring \<Rightarrow> bool" where
  "is_weekPlan toLowerCase key \<longleftrightarrow>
     includesStr (toLowerCase key) (js ''week'' @ [39] @ js ''s game plan'') \<or>
     includesStr (toLowerCase key) (js ''week plan'') \<or>
     includesStr (toLowerCase key) (js ''priorities'')"

definition is_strengths :: "(jsstring \<Rightarrow> jsstring) \<Rightarrow> jsstring \<Rightarrow> bool" where
  "is_strengths toLowerCase key \<longleftrightarrow> includesStr (toLowerCase key) (js ''building on strength'')"

definition is_drills :: "(jsstring \<Rightarrow> jsstring) \<Rightarrow> jsstring \<Rightarrow> bool" where
  "is_drills toLowerCase key \<longleftrightarrow>
     includesStr (toLowerCase key) (js ''3 key drills'') \<or>
     includesStr (toLowerCase key) (js ''your 3 key drills'')"

definition is_dailyPlan :: "(jsstring \<Rightarrow> jsstring) \<Rightarrow> jsstring \<Rightarrow> bool" where
  "is_dailyPlan toLowerCase key \<longleftrightarrow>
     includesStr (toLowerCase key) (js ''daily session plan'') \<or>
     includesStr (toLowerCase key) (js ''daily plan'')"

definition is_weeklySchedule :: "(jsstring \<Rightarrow> jsstring) \<Rightarrow> jsstring \<Rightarrow> bool" where
  "is_weeklySchedule toLowerCase key \<longleftrightarrow>
     includesStr (toLowerCase key) (js ''weekly training schedule'') \<or>
     includesStr (toLowerCase key) (js ''weekly schedule'')"

definition is_progression :: "(jsstring \<Rightarrow> jsstring) \<Rightarrow> jsstring \<Rightarrow> bool" where
  "is_progression toLowerCase key \<longleftrightarrow>
     includesStr (toLowerCase key) (js ''progression'') \<or>
     includesStr (toLowerCase key) (js ''4-week'')"

definition is_sessionPlan :: "(jsstring \<Rightarrow> jsstring) \<Rightarrow> jsstring \<Rightarrow> bool" where
  "is_sessionPlan toLowerCase key \<longleftrightarrow>
     includesStr (toLowerCase key) (js ''session plan'') \<or>
     includesStr (toLowerCase key) (js ''sample session'')"

definition is_checkpoints :: "(jsstring \<Rightarrow> jsstring) \<Rightarrow> jsstring \<Rightarrow> bool" where
  "is_checkpoints toLowerCase key \<longleftrightarrow>
     includesStr (toLowerCase key) (js ''checkpoint'') \<or>
     includesStr (toLowerCase key) (js ''progress'')"

definition is_mentalCues :: "(jsstring \<Rightarrow> jsstring) \<Rightarrow> jsstring \<Rightarrow> bool" where
  "is_mentalCues toLowerCase key \<longleftrightarrow> includesStr (toLowerCase key) (js ''mental cue'')"

definition is_traps :: "(jsstring \<Rightarrow> jsstring) \<Rightarrow> jsstring \<Rightarrow> bool" where
  "is_traps toLowerCase key \<longleftrightarrow>
     includesStr (toLowerCase key) (js ''trap'') \<or> includesStr (toLowerCase key) (js ''avoid'')"

section \<open>parseTrainingPlan\<close>

text \<open>
  The body of the \<open>forEach\<close> over \<open>Object.keys(sections.rawSections)\<close>. Only the week
  plan can raise. A key without a value would make \<open>content\<close> undefined, and its first
  use a \<open>TypeError\<close>.
\<close>

definition after_weekPlan :: "(jsstring \<Rightarrow> jsstring) \<Rightarrow> sections \<Rightarrow> jsstring \<Rightarrow> jsstring \<Rightarrow> sections" where
  "after_weekPlan toLowerCase s key content =
     (let s4 = (if is_strengths toLowerCase key then s\<lparr>strengths := bullets content\<rparr> else s);
          s5 = (if is_drills toLowerCase key then s4\<lparr>drills := drills_of toLowerCase content\<rparr> else s4);
          s6 = (if is_dailyPlan toLowerCase key then s5\<lparr>dailyPlan := dailyPlan_of content\<rparr> else s5);
          s7 = (if is_weeklySchedule toLowerCase key
                then s6\<lparr>weeklySchedule := weeklySchedule_of toLowerCase content\<rparr> else s6);
          s8 = (if is_progression toLowerCase key
                then s7\<lparr>progression := progression_of (progression s7) content\<rparr> else s7);
          s9 = (if is_sessionPlan toLowerCase key then s8\<lparr>sessionPlan := sessionPlan_of content\<rparr> else s8);
          s10 = (if is_checkpoints toLowerCase key then s9\<lparr>checkpoints := bullets content\<rparr> else s9);
          s11 = (if is_mentalCues toLowerCase key then s10\<lparr>mentalCues := bullets content\<rparr> else s10)
      in if is_traps toLowerCase key then s11\<lparr>traps := bullets content\<rparr> else s11)"

definition process_key :: "(jsstring \<Rightarrow> jsstring) \<Rightarrow> sections \<Rightarrow> jsstring \<Rightarrow> error + sections" where
  "process_key toLowerCase s key =
     (case obj_get (rawSections s) key of
        None \<Rightarrow> Inl TypeError
      | Some content \<Rightarrow>
          (let s1 = (if is_bigPicture toLowerCase key then s\<lparr>bigPicture := bullets content\<rparr> else s);
               s2 = (if is_immediateFocus toLowerCase key
                     then s1\<lparr>immediateFocus := focus_of (immediateFocus s1) content\<rparr> else s1)
           in if is_weekPlan toLowerCase key
              then (case weekPlan_of toLowerCase content of
                      Inl e \<Rightarrow> Inl e
                    | Inr ps \<Rightarrow> Inr (after_weekPlan toLowerCase (s2\<lparr>weekPlan := ps\<rparr>) key content))
              else Inr (after_weekPlan toLowerCase s2 key content)))"

text \<open>
  The result is an exception, \<open>null\<close> (for the empty string, the only falsy string) or
  the plan.
\<close>

definition parseTrainingPlan :: "(jsstring \<Rightarrow> jsstring) \<Rightarrow> jsstring \<Rightarrow> error + sections option" where
  "parseTrainingPlan toLowerCase text =
     (if text = [] then Inr None
      else (let s = scan (split_on 10 text) initial_sections [] []
            in case fold_err (process_key toLowerCase) (object_keys (rawSections s)) s of
                 Inl e \<Rightarrow> Inl e
               | Inr s' \<Rightarrow> Inr (Some s')))"

section \<open>getScoreColor\<close>

text \<open>
  A score is \<open>null\<close>, \<open>undefined\<close> or a number; a number is \<open>NaN\<close>, an infinity or a
  finite value. Comparing a number with 70 or 50 is exact, and false for \<open>NaN\<close>.
\<close>

datatype number = NaN | NegInfinity | Finite real | PosInfinity

datatype score = Null | Undefined | Number number

fun ge :: "number \<Rightarrow> real \<Rightarrow> bool" where
  "ge NaN r = False"
| "ge NegInfinity r = False"
| "ge (Finite x) r = (r \<le> x)"
| "ge PosInfinity r = True"

fun getScoreColor :: "score \<Rightarrow> string" where
  "getScoreColor Null = ''score-unknown''"
| "getScoreColor Undefined = ''score-unknown''"
| "getScoreColor (Number x) =
     (if ge x 70 then ''score-good''
      else if ge x 50 then ''score-medium''
      else ''score-poor'')"

section \<open>The document as the specification describes it\<close>

text \<open>
  A title line starts with one hash and a space, a heading line with two hashes and a
  space. A Section is a heading and the lines after it up to the next heading line; title
  lines are not part of a body. \<open>last_body\<close> is the body of the last Section under a heading.
\<close>

definition is_title :: "jsstring \<Rightarrow> bool" where
  "is_title l = startsWith l (js ''# '')"

definition is_heading :: "jsstring \<Rightarrow> bool" where
  "is_heading l = startsWith l (js ''## '')"

definition title_text :: "jsstring \<Rightarrow> jsstring" where
  "title_text l = trim (drop 2 l)"

definition heading_text :: "jsstring \<Rightarrow> jsstring" where
  "heading_text l = trim (drop 3 l)"

definition body_lines :: "jsstring list \<Rightarrow> jsstring list" where
  "body_lines ls = filter (\<lambda>l. \<not> is_title l) (takeWhile (\<lambda>l. \<not> is_heading l) ls)"

fun doc_sections :: "jsstring list \<Rightarrow> (jsstring \<times> jsstring list) list" where
  "doc_sections [] = []"
| "doc_sections (l # ls) =
     (if is_heading l then (heading_text l, body_lines ls) # doc_sections ls
      else doc_sections ls)"

definition last_body :: "jsstring \<Rightarrow> (jsstring \<times> jsstring list) list \<Rightarrow> jsstring option" where
  "last_body h secs =
     (case filter (\<lambda>sec. fst sec = h) secs of
        [] \<Rightarrow> None
      | x # xs \<Rightarrow> Some (join_lines (snd (last (x # xs)))))"

text \<open>A field of the plan that a call returns, when it returns one.\<close>

definition plan_field :: "(sections \<Rightarrow> 'a) \<Rightarrow> error + sections option \<Rightarrow> 'a option" where
  "plan_field f r = (case r of Inr (Some p) \<Rightarrow> Some (f p) | Inr None \<Rightarrow> None | Inl e \<Rightarrow> None)"

section \<open>Derived forms used in the proofs\<close>

text \<open>
  Saving Sections in document order, as the loop does: \<open>rawSections[heading] = body\<close>,
  skipped for an empty heading. \<open>last_title\<close> is the text of the last title line, or the
  given default when there is none.
\<close>

definition store_sections :: "object \<Rightarrow> (jsstring \<times> jsstring list) list \<Rightarrow> object" where
  "store_sections obj secs =
     foldl (\<lambda>ob sec. if fst sec = [] then ob else obj_set ob (fst sec) (join_lines (snd sec)))
       obj secs"

definition last_title :: "jsstring \<Rightarrow> jsstring list \<Rightarrow> jsstring" where
  "last_title t ls = (case filter is_title ls of [] \<Rightarrow> t | x # xs \<Rightarrow> title_text (last (x # xs)))"

text \<open>
  The list that a list-of-bullets field holds: the bullets of the body of the last Section
  under the last key that satisfies the field's test, or nothing when no key satisfies it.
\<close>

definition assigned_bullets ::
  "(jsstring \<Rightarrow> bool) \<Rightarrow> jsstring list \<Rightarrow> (jsstring \<times> jsstring list) list \<Rightarrow> jsstring list" where
  "assigned_bullets P keys secs =
     (case filter P keys of
        [] \<Rightarrow> []
      | k # ks \<Rightarrow> (case last_body (last (k # ks)) secs of None \<Rightarrow> [] | Some b \<Rightarrow> bullets b))"

text \<open>
  The body of the \<open>forEach\<close> without its exceptions, and the whole \<open>forEach\<close> as a
  fold; \<open>content_of\<close> reads the body retained under a key.
\<close>

definition weekPlan_list :: "(jsstring \<Rightarrow> jsstring) \<Rightarrow> jsstring \<Rightarrow> priority list" where
  "weekPlan_list toLowerCase content = (case weekPlan_of toLowerCase content of Inr ps \<Rightarrow> ps | Inl e \<Rightarrow> [])"

definition content_of :: "object \<Rightarrow> jsstring \<Rightarrow> jsstring" where
  "content_of obj key = (case obj_get obj key of Some c \<Rightarrow> c | None \<Rightarrow> [])"

definition apply_key :: "(jsstring \<Rightarrow> jsstring) \<Rightarrow> sections \<Rightarrow> jsstring \<Rightarrow> jsstring \<Rightarrow> sections" where
  "apply_key toLowerCase s key content =
     (let s1 = (if is_bigPicture toLowerCase key then s\<lparr>bigPicture := bullets content\<rparr> else s);
          s2 = (if is_immediateFocus toLowerCase key
                then s1\<lparr>immediateFocus := focus_of (immediateFocus s1) content\<rparr> else s1)
      in after_weekPlan toLowerCase
           (if is_weekPlan toLowerCase key then s2\<lparr>weekPlan := weekPlan_list toLowerCase content\<rparr> else s2) key content)"

definition apply_keys :: "(jsstring \<Rightarrow> jsstring) \<Rightarrow> sections \<Rightarrow> jsstring list \<Rightarrow> sections" where
  "apply_keys toLowerCase s keys = foldl (\<lambda>s' key. apply_key toLowerCase s' key (content_of (rawSections s') key)) s keys"




section \<open>Evaluation\<close>

lemmas str_defs = js_def isLineTerminator_def isWhiteSpace_def isDigit_def trim_def
  startsWith_def lowerChar_def asciiLowerCase_def startsWithCI_def strip_dash_def
  strip_bold_label_def bullets_def bracketed_def strip_markup_def dash_to_space_def
  sub_heading_def current_at_def focus_word_def isRunChar_def run_number_def run_split_def
  run_header_def phase_at_def week_heading_def week_match_def activity_tail_def plain_run_def
  bold_run_def indexOf_def substring_def substring_from_def

lemmas obj_defs = obj_set_def obj_get_def digits_value_def isArrayIndex_def object_keys_def

lemmas field_defs = initial_sections_def save_section_def nonblank_def is_cue_line_def
  cue_text_def detail_text_def focus_of_def empty_priority_def set_current_def
  name_from_heading_def priority_line_def priority_of_def weekPlan_of_def empty_drill_def
  is_first_def clean_line_def label_of_def value_of_def drill_labelled_def drill_line_def
  drill_of_def drills_of_def block_or_empty_def run_entry_def dailyPlan_of_def empty_day_def
  day_labelled_def day_line_def day_of_def dayBlocks_def weeklySchedule_of_def
  progression_of_def session_of_def sessionPlan_of_def

lemmas class_defs = is_bigPicture_def is_immediateFocus_def is_weekPlan_def is_strengths_def
  is_drills_def is_dailyPlan_def is_weeklySchedule_def is_progression_def is_sessionPlan_def
  is_checkpoints_def is_mentalCues_def is_traps_def

lemmas parse_defs = after_weekPlan_def process_key_def parseTrainingPlan_def plan_field_def

lemmas eval_defs = str_defs obj_defs field_defs class_defs parse_defs enumerate_eq_zip

lemmas eval2_defs = eval_defs is_title_def is_heading_def title_text_def heading_text_def
  body_lines_def last_body_def last_title_def store_sections_def

section \<open>Lemmas\<close>

subsection \<open>The line scan and the raw mapping\<close>

lemma replace_str_prefix:
  "startsWith s p \<Longrightarrow> p \<noteq> [] \<Longrightarrow> replace_str p s = drop (length p) s"
  by (cases s) (auto simp: startsWith_def)

lemma title_not_heading: "is_title l \<Longrightarrow> \<not> is_heading l"
  by (auto simp: is_title_def is_heading_def startsWith_def js_def prefix_def)

lemma store_sections_Cons:
  "store_sections obj (sec # secs) =
     store_sections (if fst sec = [] then obj else obj_set obj (fst sec) (join_lines (snd sec))) secs"
  by (simp add: store_sections_def)

lemma last_title_Cons:
  "last_title t (l # ls) = (if is_title l then last_title (title_text l) ls else last_title t ls)"
  by (auto simp: last_title_def split: list.splits)

lemma scan_eq:
  "scan ls s cur content =
     s\<lparr>title := last_title (title s) ls,
       rawSections := store_sections (rawSections s) ((cur, content @ body_lines ls) # doc_sections ls)\<rparr>"
proof (induction ls arbitrary: s cur content)
  case Nil
  show ?case
    by (simp add: save_section_def store_sections_def body_lines_def last_title_def)
next
  case (Cons l ls)
  show ?case
  proof (cases "is_title l")
    case True
    then have nh: "\<not> is_heading l" by (rule title_not_heading)
    from True have r: "replace_str (js ''# '') l = drop 2 l"
      using replace_str_prefix [of l "js ''# ''"] by (simp add: is_title_def js_def numeral_2_eq_2)
    show ?thesis
      using True nh r
      by (simp add: Cons.IH last_title_Cons is_title_def [symmetric] is_heading_def [symmetric]
          body_lines_def title_text_def store_sections_Cons)
  next
    case False
    show ?thesis
    proof (cases "is_heading l")
      case True
      from True have r: "replace_str (js ''## '') l = drop 3 l"
        using replace_str_prefix [of l "js ''## ''"] by (simp add: is_heading_def js_def numeral_3_eq_3)
      show ?thesis
        using True False r
        by (simp add: Cons.IH last_title_Cons is_title_def [symmetric] is_heading_def [symmetric]
            body_lines_def heading_text_def store_sections_Cons save_section_def)
    next
      case nh: False
      show ?thesis
        using False nh
        by (simp add: Cons.IH last_title_Cons is_title_def [symmetric] is_heading_def [symmetric]
            body_lines_def store_sections_Cons)
    qed
  qed
qed

lemma store_sections_snoc:
  "store_sections obj (secs @ [sec]) =
     (if fst sec = [] then store_sections obj secs
      else obj_set (store_sections obj secs) (fst sec) (join_lines (snd sec)))"
  by (simp add: store_sections_def)

lemma case_last: "ys \<noteq> [] \<Longrightarrow> (case ys of [] \<Rightarrow> a | x # xs \<Rightarrow> g (last (x # xs))) = g (last ys)"
  by (cases ys) simp_all

lemma last_body_snoc:
  "last_body h (secs @ [sec]) = (if fst sec = h then Some (join_lines (snd sec)) else last_body h secs)"
proof (cases "fst sec = h")
  case True
  have "(case filter (\<lambda>sec. fst sec = h) secs @ [sec] of [] \<Rightarrow> None
         | x # xs \<Rightarrow> Some (join_lines (snd (last (x # xs))))) =
        Some (join_lines (snd (last (filter (\<lambda>sec. fst sec = h) secs @ [sec]))))"
    by (rule case_last) simp
  with True show ?thesis by (simp add: last_body_def)
next
  case False
  then show ?thesis by (simp add: last_body_def)
qed

lemma map_of_store_sections:
  "map_of (store_sections [] secs) h =
     (if h = [] \<or> h = js ''__proto__'' then None else last_body h secs)"
proof (induction secs arbitrary: h rule: rev_induct)
  case Nil
  show ?case by (simp add: store_sections_def last_body_def)
next
  case (snoc sec secs)
  show ?case
    by (auto simp: store_sections_snoc last_body_snoc snoc.IH obj_set_def update_conv')
qed

lemma set_object_keys: "set (object_keys obj) = fst ` set obj"
  by (auto simp: object_keys_def)

subsection \<open>The loop over the keys\<close>

lemma includesStr_single: "includesStr l [c] \<longleftrightarrow> c \<in> set l"
  by (induction l) (auto simp: startsWith_def)

lemma split_on_nonempty: "split_on sep l \<noteq> []"
  by (induction l) (auto split: list.splits)

lemma split_on_two: "sep \<in> set l \<Longrightarrow> \<exists>a b r. split_on sep l = a # b # r"
proof (induction l)
  case Nil
  then show ?case by simp
next
  case (Cons c cs)
  show ?case
  proof (cases "c = sep")
    case True
    obtain b r where "split_on sep cs = b # r"
      using split_on_nonempty [of sep cs] by (cases "split_on sep cs") auto
    with True show ?thesis by simp
  next
    case False
    with Cons.prems have "sep \<in> set cs" by simp
    then obtain a b r where "split_on sep cs = a # b # r" using Cons.IH by blast
    with False show ?thesis by simp
  qed
qed

lemma set_labelled_Inr:
  assumes "58 \<in> set l"
  shows "\<exists>p'. set_labelled toLowerCase p l (map trim (split_on 58 l)) = Inr p'"
proof -
  obtain a b r where "split_on 58 l = a # b # r" using split_on_two [OF assms] by blast
  then show ?thesis by (simp add: Let_def)
qed

lemma priority_line_Inr: "\<exists>p'. priority_line toLowerCase p l = Inr p'"
proof (cases "58 \<in> set l")
  case True
  obtain p' where "set_labelled toLowerCase (set_current p l) l (map trim (split_on 58 l)) = Inr p'"
    using set_labelled_Inr [OF True] by blast
  with True show ?thesis by (simp add: priority_line_def includesStr_single)
next
  case False
  then show ?thesis by (simp add: priority_line_def includesStr_single)
qed

lemma fold_err_Inr:
  assumes "\<And>s x. \<exists>s'. f s x = Inr s'"
  shows "\<exists>s'. fold_err f xs s = Inr s'"
proof (induction xs arbitrary: s)
  case Nil
  show ?case by simp
next
  case (Cons x xs)
  obtain s1 where "f s x = Inr s1" using assms by blast
  then show ?case using Cons.IH [of s1] by simp
qed

lemma map_err_Inr:
  assumes "\<And>x. \<exists>y. f x = Inr y"
  shows "\<exists>ys. map_err f xs = Inr ys"
proof (induction xs)
  case Nil
  show ?case by simp
next
  case (Cons x xs)
  obtain y where "f x = Inr y" using assms by blast
  moreover obtain ys where "map_err f xs = Inr ys" using Cons.IH by blast
  ultimately show ?case by simp
qed

lemma priority_of_Inr: "\<exists>p. priority_of toLowerCase block = Inr p"
proof -
  obtain p where "fold_err (priority_line toLowerCase) (filter nonblank (split_on 10 block)) empty_priority = Inr p"
    using fold_err_Inr [of "priority_line toLowerCase", OF priority_line_Inr] by blast
  then show ?thesis by (simp add: priority_of_def Let_def)
qed

lemma weekPlan_of_Inr: "weekPlan_of toLowerCase content = Inr (weekPlan_list toLowerCase content)"
proof -
  obtain ps where
    "map_err (priority_of toLowerCase) (filter nonblank (split_re (sub_heading (js ''Priority'')) [] content)) = Inr ps"
    using map_err_Inr [of "priority_of toLowerCase", OF priority_of_Inr] by blast
  then show ?thesis by (simp add: weekPlan_of_def weekPlan_list_def)
qed

lemma process_key_eq:
  "obj_get (rawSections s) key = Some content \<Longrightarrow> process_key toLowerCase s key = Inr (apply_key toLowerCase s key content)"
  by (simp add: process_key_def apply_key_def weekPlan_of_Inr Let_def)

lemma rawSections_after: "rawSections (after_weekPlan toLowerCase s k c) = rawSections s"
  by (simp add: after_weekPlan_def Let_def)

lemma rawSections_apply_key: "rawSections (apply_key toLowerCase s k c) = rawSections s"
  by (simp add: apply_key_def rawSections_after Let_def)

lemma title_apply_key: "title (apply_key toLowerCase s k c) = title s"
  by (simp add: apply_key_def after_weekPlan_def Let_def)

lemma rawSections_apply_keys: "rawSections (apply_keys toLowerCase s ks) = rawSections s"
  by (induction ks rule: rev_induct) (simp_all add: apply_keys_def rawSections_apply_key)

lemma title_apply_keys: "title (apply_keys toLowerCase s ks) = title s"
  by (induction ks rule: rev_induct) (simp_all add: apply_keys_def title_apply_key)

lemma apply_keys_snoc:
  "apply_keys toLowerCase s (ks @ [k]) = apply_key toLowerCase (apply_keys toLowerCase s ks) k (content_of (rawSections s) k)"
  by (simp add: apply_keys_def rawSections_apply_keys [unfolded apply_keys_def])

lemma fold_err_process_key:
  "\<forall>k \<in> set ks. obj_get (rawSections s) k \<noteq> None \<Longrightarrow>
   fold_err (process_key toLowerCase) ks s = Inr (apply_keys toLowerCase s ks)"
proof (induction ks arbitrary: s)
  case Nil
  show ?case by (simp add: apply_keys_def)
next
  case (Cons k ks)
  from Cons.prems obtain c where c: "obj_get (rawSections s) k = Some c" by auto
  have "\<forall>k' \<in> set ks. obj_get (rawSections (apply_key toLowerCase s k c)) k' \<noteq> None"
    using Cons.prems by (simp add: rawSections_apply_key)
  from Cons.IH [OF this] c show ?case
    by (simp add: process_key_eq apply_keys_def content_of_def)
qed

lemma assigned_field:
  assumes "\<And>s k c. F (apply_key toLowerCase s k c) = (if P k then E c else F s)"
  shows "F (apply_keys toLowerCase s ks) =
           (case filter P ks of [] \<Rightarrow> F s
            | x # xs \<Rightarrow> E (content_of (rawSections s) (last (x # xs))))"
proof (induction ks rule: rev_induct)
  case Nil
  show ?case by (simp add: apply_keys_def)
next
  case (snoc k ks)
  show ?case
  proof (cases "P k")
    case True
    have "(case filter P ks @ [k] of [] \<Rightarrow> F s
           | x # xs \<Rightarrow> E (content_of (rawSections s) (last (x # xs)))) =
          E (content_of (rawSections s) (last (filter P ks @ [k])))"
      by (rule case_last) simp
    with True show ?thesis by (simp add: apply_keys_snoc assms)
  next
    case False
    then show ?thesis by (simp add: apply_keys_snoc assms snoc.IH)
  qed
qed

lemma bigPicture_apply_key:
  "bigPicture (apply_key toLowerCase s k c) = (if is_bigPicture toLowerCase k then bullets c else bigPicture s)"
  by (simp add: apply_key_def after_weekPlan_def Let_def)

lemma strengths_apply_key:
  "strengths (apply_key toLowerCase s k c) = (if is_strengths toLowerCase k then bullets c else strengths s)"
  by (simp add: apply_key_def after_weekPlan_def Let_def)

lemma checkpoints_apply_key:
  "checkpoints (apply_key toLowerCase s k c) = (if is_checkpoints toLowerCase k then bullets c else checkpoints s)"
  by (simp add: apply_key_def after_weekPlan_def Let_def)

lemma mentalCues_apply_key:
  "mentalCues (apply_key toLowerCase s k c) = (if is_mentalCues toLowerCase k then bullets c else mentalCues s)"
  by (simp add: apply_key_def after_weekPlan_def Let_def)

lemma traps_apply_key:
  "traps (apply_key toLowerCase s k c) = (if is_traps toLowerCase k then bullets c else traps s)"
  by (simp add: apply_key_def after_weekPlan_def Let_def)

lemma weekPlan_apply_key:
  "weekPlan (apply_key toLowerCase s k c) = (if is_weekPlan toLowerCase k then weekPlan_list toLowerCase c else weekPlan s)"
  by (simp add: apply_key_def after_weekPlan_def Let_def)

lemma drills_apply_key:
  "drills (apply_key toLowerCase s k c) = (if is_drills toLowerCase k then drills_of toLowerCase c else drills s)"
  by (simp add: apply_key_def after_weekPlan_def Let_def)

lemma dailyPlan_apply_key:
  "dailyPlan (apply_key toLowerCase s k c) = (if is_dailyPlan toLowerCase k then dailyPlan_of c else dailyPlan s)"
  by (simp add: apply_key_def after_weekPlan_def Let_def)

lemma weeklySchedule_apply_key:
  "weeklySchedule (apply_key toLowerCase s k c) =
     (if is_weeklySchedule toLowerCase k then weeklySchedule_of toLowerCase c else weeklySchedule s)"
  by (simp add: apply_key_def after_weekPlan_def Let_def)

lemma sessionPlan_apply_key:
  "sessionPlan (apply_key toLowerCase s k c) = (if is_sessionPlan toLowerCase k then sessionPlan_of c else sessionPlan s)"
  by (simp add: apply_key_def after_weekPlan_def Let_def)

lemma immediateFocus_apply_key:
  "immediateFocus (apply_key toLowerCase s k c) =
     (if is_immediateFocus toLowerCase k then focus_of (immediateFocus s) c else immediateFocus s)"
  by (simp add: apply_key_def after_weekPlan_def Let_def)

lemma progression_apply_key:
  "progression (apply_key toLowerCase s k c) =
     (if is_progression toLowerCase k then progression_of (progression s) c else progression s)"
  by (simp add: apply_key_def after_weekPlan_def Let_def)

lemma map_of_fst: "map_of obj k \<noteq> None \<longleftrightarrow> k \<in> fst ` set obj"
  by (simp add: map_of_eq_None_iff)

lemma parse_eq:
  assumes "text \<noteq> []"
  shows "parseTrainingPlan toLowerCase text =
           Inr (Some (apply_keys toLowerCase (scan (split_on 10 text) initial_sections [] [])
                        (object_keys (rawSections (scan (split_on 10 text) initial_sections [] [])))))"
proof -
  let ?s = "scan (split_on 10 text) initial_sections [] []"
  have "\<forall>k \<in> set (object_keys (rawSections ?s)). obj_get (rawSections ?s) k \<noteq> None"
    unfolding set_object_keys obj_get_def map_of_fst by blast
  from fold_err_process_key [OF this] assms show ?thesis
    by (simp add: parseTrainingPlan_def Let_def)
qed

lemma scan_initial:
  "scan ls initial_sections [] [] =
     initial_sections\<lparr>title := last_title [] ls, rawSections := store_sections [] (doc_sections ls)\<rparr>"
  by (simp add: scan_eq store_sections_Cons) (simp add: initial_sections_def)

subsection \<open>The plan of a document\<close>

lemma no_heading_no_sections: "\<not> list_ex is_heading ls \<Longrightarrow> doc_sections ls = []"
  by (induction ls) auto

lemma parse_shape:
  assumes "text \<noteq> []"
  shows "parseTrainingPlan toLowerCase text =
           Inr (Some (apply_keys toLowerCase
                 (initial_sections\<lparr>title := last_title [] (split_on 10 text),
                    rawSections := store_sections [] (doc_sections (split_on 10 text))\<rparr>)
                 (object_keys (store_sections [] (doc_sections (split_on 10 text))))))"
  using parse_eq [OF assms] by (simp add: scan_initial)

lemma body_lines_filter: "body_lines (filter (\<lambda>l. \<not> is_title l) ls) = body_lines ls"
  by (induction ls) (auto simp: body_lines_def title_not_heading)

lemma doc_sections_filter: "doc_sections (filter (\<lambda>l. \<not> is_title l) ls) = doc_sections ls"
  by (induction ls) (auto simp: body_lines_filter title_not_heading)

lemma content_of_store:
  "k \<in> set (object_keys (store_sections [] secs)) \<Longrightarrow>
   bullets (content_of (store_sections [] secs) k) =
     (case last_body k secs of None \<Rightarrow> [] | Some b \<Rightarrow> bullets b)"
proof -
  assume "k \<in> set (object_keys (store_sections [] secs))"
  then have "map_of (store_sections [] secs) k \<noteq> None"
    unfolding set_object_keys map_of_fst .
  then show ?thesis
    by (auto simp: content_of_def obj_get_def map_of_store_sections split: if_splits)
qed

lemma assigned_bullets_eq:
  assumes step: "\<And>s k c. F (apply_key toLowerCase s k c) = (if P k then bullets c else F s)"
    and init: "F s = []" and raw: "rawSections s = store_sections [] secs"
  shows "F (apply_keys toLowerCase s (object_keys (store_sections [] secs))) =
           assigned_bullets P (object_keys (store_sections [] secs)) secs"
proof (cases "filter P (object_keys (store_sections [] secs))")
  case Nil
  then show ?thesis
    using assigned_field [where F = F and P = P and E = bullets and s = s, OF step]
    by (simp add: assigned_bullets_def init)
next
  case (Cons x xs)
  have "last (x # xs) \<in> set (filter P (object_keys (store_sections [] secs)))"
    unfolding Cons by (rule last_in_set) simp
  then have "last (x # xs) \<in> set (object_keys (store_sections [] secs))" by simp
  from content_of_store [OF this] Cons show ?thesis
    using assigned_field [where F = F and P = P and E = bullets and s = s, OF step]
    by (simp add: assigned_bullets_def raw)
qed

subsection \<open>Day numbers\<close>

lemma dayNum_day_labelled: "dayNum (day_labelled d l v) = dayNum d"
  by (simp add: day_labelled_def Let_def)

lemma dayNum_day_line: "dayNum (day_line toLowerCase lines d l) = dayNum d"
  by (simp add: day_line_def dayNum_day_labelled Let_def)

lemma dayNum_foldl: "dayNum (foldl (day_line toLowerCase lines) d ls) = dayNum d"
  by (induction ls arbitrary: d) (simp_all add: dayNum_day_line)

lemma dayNum_day_of: "dayNum (day_of toLowerCase (idx, block)) = idx + 1"
  by (simp add: day_of_def dayNum_foldl empty_day_def Let_def)

lemma map_dayNum_zip:
  "length is = length bs \<Longrightarrow> map dayNum (map (day_of toLowerCase) (zip is bs)) = map Suc is"
  by (induction "is" bs rule: list_induct2) (simp_all add: dayNum_day_of)

lemma map_dayNum_enumerate:
  "map dayNum (map (day_of toLowerCase) (enumerate 0 bs)) = [1..<Suc (length bs)]"
proof -
  have "map dayNum (map (day_of toLowerCase) (enumerate 0 bs)) = map Suc [0..<length bs]"
    using map_dayNum_zip [of "[0..<length bs]" bs] by (simp add: enumerate_eq_zip)
  then show ?thesis by (simp only: map_Suc_upt One_nat_def)
qed

lemma weeklySchedule_sorted: "sorted_wrt (<) (map dayNum (weeklySchedule_of toLowerCase content))"
proof -
  have "sorted_wrt (<) (map dayNum (map (day_of toLowerCase) (enumerate 0 (dayBlocks content))))"
    unfolding map_dayNum_enumerate by (rule sorted_wrt_upt)
  then have "sorted_wrt (\<lambda>x y. dayNum x < dayNum y) (map (day_of toLowerCase) (enumerate 0 (dayBlocks content)))"
    by (simp only: sorted_wrt_map)
  then have "sorted_wrt (\<lambda>x y. dayNum x < dayNum y) (weeklySchedule_of toLowerCase content)"
    unfolding weeklySchedule_of_def by (rule sorted_wrt_filter)
  then show ?thesis by (simp only: sorted_wrt_map)
qed

lemma weeklySchedule_member:
  assumes "d \<in> set (weeklySchedule_of toLowerCase content)"
  shows "1 \<le> dayNum d \<and> dayNum d \<le> length (dayBlocks content) \<and>
         d = day_of toLowerCase (dayNum d - 1, dayBlocks content ! (dayNum d - 1))"
proof -
  from assms obtain i where i: "i < length (dayBlocks content)" and d: "d = day_of toLowerCase (i, dayBlocks content ! i)"
    by (auto simp: weeklySchedule_of_def enumerate_eq_zip in_set_zip)
  then show ?thesis by (simp add: dayNum_day_of)
qed

lemma filter_same_length: "length (filter P xs) = length xs \<Longrightarrow> filter P xs = xs"
proof (induction xs)
  case Nil
  show ?case by simp
next
  case (Cons x xs)
  have le: "length (filter P xs) \<le> length xs" by (rule length_filter_le)
  from Cons.prems le have px: "P x" by (cases "P x") auto
  with Cons.prems have "length (filter P xs) = length xs" by simp
  with Cons.IH px show ?case by simp
qed

lemma weeklySchedule_all_kept:
  assumes "length (weeklySchedule_of toLowerCase content) = length (dayBlocks content)"
  shows "map dayNum (weeklySchedule_of toLowerCase content) = [1..<Suc (length (dayBlocks content))]"
proof -
  let ?ds = "map (day_of toLowerCase) (enumerate 0 (dayBlocks content))"
  let ?P = "\<lambda>d. day_name d \<noteq> [] \<or> primaryFocus d \<noteq> []"
  have "length (filter ?P ?ds) = length ?ds" using assms by (simp add: weeklySchedule_of_def)
  then have "filter ?P ?ds = ?ds" by (rule filter_same_length)
  then have "weeklySchedule_of toLowerCase content = ?ds" by (simp add: weeklySchedule_of_def)
  then show ?thesis by (simp only: map_dayNum_enumerate)
qed

subsection \<open>Documents with one section\<close>

lemma weeklySchedule_assigned:
  assumes "text \<noteq> []"
  shows "\<exists>p. parseTrainingPlan toLowerCase text = Inr (Some p) \<and>
           weeklySchedule p =
             (case filter (is_weeklySchedule toLowerCase) (object_keys (rawSections p)) of
                [] \<Rightarrow> []
              | k # ks \<Rightarrow> weeklySchedule_of toLowerCase (content_of (rawSections p) (last (k # ks))))"
  using parse_shape [OF assms]
    assigned_field [where F = weeklySchedule and P = "is_weeklySchedule toLowerCase"
      and E = "weeklySchedule_of toLowerCase", OF weeklySchedule_apply_key]
  by (simp add: rawSections_apply_keys initial_sections_def split: list.splits)

lemma object_keys_single: "object_keys [(k, v)] = [k]"
  by (simp add: object_keys_def)

lemma single_section_plan:
  assumes secs: "doc_sections (split_on 10 text) = [(h, body)]"
    and h: "h \<noteq> []" "h \<noteq> js ''__proto__''"
  shows "parseTrainingPlan toLowerCase text =
           Inr (Some (apply_key toLowerCase
                 (initial_sections\<lparr>title := last_title [] (split_on 10 text),
                    rawSections := [(h, join_lines body)]\<rparr>) h (join_lines body)))"
proof -
  have "text \<noteq> []" using secs by (auto simp: is_heading_def startsWith_def js_def)
  from parse_shape [OF this] h show ?thesis
    by (simp add: secs store_sections_def obj_set_def object_keys_single apply_keys_def
        content_of_def obj_get_def)
qed

subsection \<open>Priority blocks\<close>
































section \<open>C1: the result of a call\<close>

text \<open>
  C1, amended. For every input string but the empty one, \<open>parseTrainingPlan\<close> returns
  without raising, and what it returns is a plan with every field present; a document
  without a \<open>##\<close> heading line returns the defaults (empty strings and sequences) with
  only the title set, which is the text of the last title line if there is one. For the
  empty string the result is \<open>null\<close>, not a plan.
\<close>

theorem parse_returns_plan:
  assumes "text \<noteq> []"
  shows "\<exists>p. parseTrainingPlan toLowerCase text = Inr (Some p) \<and>
             (\<not> list_ex is_heading (split_on 10 text) \<longrightarrow>
                p = initial_sections\<lparr>title := last_title [] (split_on 10 text)\<rparr>)"
proof (cases "list_ex is_heading (split_on 10 text)")
  case True
  then show ?thesis using parse_shape [OF assms] by simp
next
  case False
  then have "doc_sections (split_on 10 text) = []" by (rule no_heading_no_sections)
  then show ?thesis using parse_shape [OF assms] False
    by (simp add: store_sections_def object_keys_def apply_keys_def initial_sections_def)
qed

theorem parse_returns_plan_witness:
  "parseTrainingPlan asciiLowerCase (js ''# Plan'' @ [10] @ js ''hello'') =
     Inr (Some (initial_sections\<lparr>title := js ''Plan''\<rparr>))"
  using parse_returns_plan [where toLowerCase = asciiLowerCase and ?text = "js ''# Plan'' @ [10] @ js ''hello''"]
  by (simp add: eval2_defs)

text \<open>
  C1, as the specification states it, fails for the empty string: the guard
  \<open>if (!text) return null\<close> returns \<open>null\<close>, not a plan at its defaults.
\<close>

theorem parse_empty_is_null: "parseTrainingPlan asciiLowerCase [] = Inr None"
  by (simp add: parseTrainingPlan_def)

section \<open>C2: the title\<close>

text \<open>
  C2, amended. For every non-empty document the title is the text of the last line that
  starts with one hash and a space (each such line overwrites the title), empty when
  there is none; title lines start no section and belong to no body: the raw mapping is
  the one of the document without its title lines.
\<close>

theorem title_is_last_title_line:
  assumes "text \<noteq> []"
  shows "\<exists>p. parseTrainingPlan toLowerCase text = Inr (Some p) \<and>
             title p = last_title [] (split_on 10 text) \<and>
             rawSections p =
               store_sections [] (doc_sections (filter (\<lambda>l. \<not> is_title l) (split_on 10 text)))"
  using parse_shape [OF assms]
  by (simp add: title_apply_keys rawSections_apply_keys doc_sections_filter)

theorem title_is_last_title_line_witness:
  "\<exists>p. parseTrainingPlan asciiLowerCase
          (js ''# A'' @ [10] @ js ''## S'' @ [10] @ js ''x'' @ [10] @ js ''# C'' @ [10] @ js ''y'')
        = Inr (Some p) \<and>
       title p = js ''C'' \<and> rawSections p = [(js ''S'', js ''x'' @ [10] @ js ''y'')]"
  using title_is_last_title_line
    [where toLowerCase = asciiLowerCase and ?text = "js ''# A'' @ [10] @ js ''## S'' @ [10] @ js ''x'' @ [10] @ js ''# C'' @ [10] @ js ''y''"]
  by (simp add: eval2_defs)

text \<open>
  C2, as the specification states it, fails: of two title lines the later one is the title.
\<close>

theorem title_last_wins_example:
  "plan_field title (parseTrainingPlan asciiLowerCase (js ''# A'' @ [10] @ js ''# B'')) = Some (js ''B'') \<and>
   plan_field title (parseTrainingPlan asciiLowerCase (js ''# A'' @ [10] @ js ''# B'')) \<noteq> Some (js ''A'')"
  by (simp add: eval_defs)

section \<open>C3: repeated headings\<close>

text \<open>
  C3, amended. A list-valued field is assigned, never appended to: for every non-empty
  document each of \<open>bigPicture\<close>, \<open>strengths\<close>, \<open>checkpoints\<close>, \<open>mentalCues\<close> and
  \<open>traps\<close> holds the bullets of one body only, the body of the last Section under the
  last key of the raw mapping (in the order of \<open>Object.keys\<close>) that satisfies the field's
  test, and is empty when no key satisfies it. This holds for every function in the place
  of \<open>toLowerCase\<close>.
\<close>

theorem list_fields_hold_last_section:
  assumes "text \<noteq> []"
  shows "\<exists>p. parseTrainingPlan toLowerCase text = Inr (Some p) \<and>
     bigPicture p = assigned_bullets (is_bigPicture toLowerCase) (object_keys (rawSections p))
                      (doc_sections (split_on 10 text)) \<and>
     strengths p = assigned_bullets (is_strengths toLowerCase) (object_keys (rawSections p))
                      (doc_sections (split_on 10 text)) \<and>
     checkpoints p = assigned_bullets (is_checkpoints toLowerCase) (object_keys (rawSections p))
                      (doc_sections (split_on 10 text)) \<and>
     mentalCues p = assigned_bullets (is_mentalCues toLowerCase) (object_keys (rawSections p))
                      (doc_sections (split_on 10 text)) \<and>
     traps p = assigned_bullets (is_traps toLowerCase) (object_keys (rawSections p))
                      (doc_sections (split_on 10 text))"
proof -
  let ?secs = "doc_sections (split_on 10 text)"
  let ?s = "initial_sections\<lparr>title := last_title [] (split_on 10 text),
                    rawSections := store_sections [] ?secs\<rparr>"
  let ?p = "apply_keys toLowerCase ?s (object_keys (store_sections [] ?secs))"
  have p: "parseTrainingPlan toLowerCase text = Inr (Some ?p)" by (rule parse_shape [OF assms])
  have raw: "rawSections ?p = store_sections [] ?secs" by (simp add: rawSections_apply_keys)
  have r: "rawSections ?s = store_sections [] ?secs" by simp
  have "bigPicture ?p = assigned_bullets (is_bigPicture toLowerCase) (object_keys (rawSections ?p)) ?secs"
    unfolding raw by (rule assigned_bullets_eq [OF bigPicture_apply_key _ r]) (simp add: initial_sections_def)
  moreover have "strengths ?p = assigned_bullets (is_strengths toLowerCase) (object_keys (rawSections ?p)) ?secs"
    unfolding raw by (rule assigned_bullets_eq [OF strengths_apply_key _ r]) (simp add: initial_sections_def)
  moreover have "checkpoints ?p = assigned_bullets (is_checkpoints toLowerCase) (object_keys (rawSections ?p)) ?secs"
    unfolding raw by (rule assigned_bullets_eq [OF checkpoints_apply_key _ r]) (simp add: initial_sections_def)
  moreover have "mentalCues ?p = assigned_bullets (is_mentalCues toLowerCase) (object_keys (rawSections ?p)) ?secs"
    unfolding raw by (rule assigned_bullets_eq [OF mentalCues_apply_key _ r]) (simp add: initial_sections_def)
  moreover have "traps ?p = assigned_bullets (is_traps toLowerCase) (object_keys (rawSections ?p)) ?secs"
    unfolding raw by (rule assigned_bullets_eq [OF traps_apply_key _ r]) (simp add: initial_sections_def)
  ultimately show ?thesis using p by blast
qed

theorem list_fields_hold_last_section_witness:
  "\<exists>p. parseTrainingPlan asciiLowerCase
          (js ''## Checkpoints'' @ [10] @ js ''- a'' @ [10] @
           js ''## Checkpoints'' @ [10] @ js ''- b'') = Inr (Some p) \<and>
       checkpoints p = [js ''b''] \<and> traps p = []"
  using list_fields_hold_last_section
    [where toLowerCase = asciiLowerCase and ?text = "js ''## Checkpoints'' @ [10] @ js ''- a'' @ [10] @ js ''## Checkpoints'' @ [10] @ js ''- b''"]
  by (simp add: eval2_defs assigned_bullets_def)

text \<open>
  C3, as the specification states it, fails: of two \<open>## Checkpoints\<close> sections only the
  later one's bullet reaches \<open>checkpoints\<close>.
\<close>

theorem duplicate_heading_example:
  "plan_field checkpoints
     (parseTrainingPlan asciiLowerCase
        (js ''## Checkpoints'' @ [10] @ js ''- a'' @ [10] @
         js ''## Checkpoints'' @ [10] @ js ''- b'')) = Some [js ''b'']"
  by (simp add: eval_defs)

section \<open>C4: the raw mapping\<close>

text \<open>
  C4, amended. For every non-empty document parsing returns a plan, and the raw mapping
  holds, under every heading that is neither empty after trimming nor \<open>__proto__\<close>, the
  body of the last Section with that heading: its lines without the title lines, joined
  by line feeds. A heading that is empty after the marker, and \<open>__proto__\<close>, get no entry,
  and an earlier Section of a repeated heading is overwritten.
\<close>

theorem raw_sections_keep_last_body:
  assumes "text \<noteq> []"
  shows "\<exists>p. parseTrainingPlan toLowerCase text = Inr (Some p) \<and>
     (\<forall>h. obj_get (rawSections p) h =
            (if h = [] \<or> h = js ''__proto__'' then None
             else last_body h (doc_sections (split_on 10 text))))"
  using parse_shape [OF assms]
  by (simp add: rawSections_apply_keys obj_get_def map_of_store_sections)

theorem raw_sections_keep_last_body_witness:
  "\<exists>p. parseTrainingPlan asciiLowerCase
          (js ''## Notes'' @ [10] @ js ''one'' @ [10] @ js ''### Sub'' @ [10] @
           js ''## Other'' @ [10] @ js ''## Notes'' @ [10] @ js ''two'') = Inr (Some p) \<and>
       obj_get (rawSections p) (js ''Notes'') = Some (js ''two'') \<and>
       obj_get (rawSections p) (js ''Other'') = Some []"
  using raw_sections_keep_last_body
    [where toLowerCase = asciiLowerCase and ?text = "js ''## Notes'' @ [10] @ js ''one'' @ [10] @ js ''### Sub'' @ [10] @
           js ''## Other'' @ [10] @ js ''## Notes'' @ [10] @ js ''two''"]
  by (simp add: eval2_defs)

text \<open>
  C4, as the specification states it, fails: the body of a section whose heading is empty
  after the marker is not retained.
\<close>

theorem empty_heading_example:
  "plan_field rawSections (parseTrainingPlan asciiLowerCase (js ''## '' @ [10] @ js ''- a'')) = Some []"
  by (simp add: eval_defs)

section \<open>C5: bullet lines\<close>

text \<open>
  C5 at an indented bullet line: the line passes the filter, which trims it, but the dash
  is removed only at the very start of the untrimmed line, so the entry keeps its dash.
\<close>

theorem indented_bullet_keeps_dash:
  "plan_field checkpoints
     (parseTrainingPlan asciiLowerCase (js ''## Checkpoints'' @ [10] @ js ''  - Hips forward''))
   = Some [js ''- Hips forward'']"
  by (simp add: eval_defs)

section \<open>C6: two priority blocks\<close>




section \<open>C7: the daily plan\<close>

text \<open>
  C7 at a body that begins with its first run header: the blank first block of the split
  is filtered out, \<open>runBlocks[idx + 1]\<close> then reads one block too far, and the first run
  gets the bullets of the second while the last run gets none.
\<close>

theorem daily_plan_off_by_one:
  "plan_field (map phase_details \<circ> dailyPlan)
     (parseTrainingPlan asciiLowerCase
        (js ''## Daily Plan'' @ [10] @ js ''**Run 1-2: Warm**'' @ [10] @ js ''- a'' @ [10] @
         js ''**Run 3: Work**'' @ [10] @ js ''- b''))
   = Some [[js ''b''], []]"
  by (simp add: eval_defs)

section \<open>C8: day numbers\<close>

text \<open>
  C8, amended. The body is split on \<open>### Day <number>\<close> boundaries and the blank blocks
  dropped; the number of a day is its 1-based position among these blocks, whatever the
  literal number, and it is given before the blocks with neither a name nor a primary
  focus are discarded. So the day numbers of the returned list are strictly increasing,
  each the position of the block its entry was made from, and they are 1, 2, 3, ...
  when no block is discarded. The parser assigns to \<open>weeklySchedule\<close> this list for the
  body under the last key that satisfies the test of the weekly schedule. This holds for
  every function in the place of \<open>toLowerCase\<close>.
\<close>

theorem day_numbers_are_block_positions:
  "dayNum (day_of toLowerCase (idx, block)) = idx + 1 \<and>
   map dayNum (map (day_of toLowerCase) (enumerate 0 (dayBlocks content))) = [1..<Suc (length (dayBlocks content))] \<and>
   weeklySchedule_of toLowerCase content =
     filter (\<lambda>d. day_name d \<noteq> [] \<or> primaryFocus d \<noteq> [])
       (map (day_of toLowerCase) (enumerate 0 (dayBlocks content))) \<and>
   sorted_wrt (<) (map dayNum (weeklySchedule_of toLowerCase content)) \<and>
   (\<forall>d \<in> set (weeklySchedule_of toLowerCase content).
      1 \<le> dayNum d \<and> dayNum d \<le> length (dayBlocks content) \<and>
      d = day_of toLowerCase (dayNum d - 1, dayBlocks content ! (dayNum d - 1))) \<and>
   (length (weeklySchedule_of toLowerCase content) = length (dayBlocks content) \<longrightarrow>
      map dayNum (weeklySchedule_of toLowerCase content) = [1..<Suc (length (dayBlocks content))]) \<and>
   (text \<noteq> [] \<longrightarrow>
      (\<exists>p. parseTrainingPlan toLowerCase text = Inr (Some p) \<and>
           weeklySchedule p =
             (case filter (is_weeklySchedule toLowerCase) (object_keys (rawSections p)) of
                [] \<Rightarrow> []
              | k # ks \<Rightarrow> weeklySchedule_of toLowerCase (content_of (rawSections p) (last (k # ks))))))"
  using dayNum_day_of map_dayNum_enumerate weeklySchedule_sorted weeklySchedule_member
    weeklySchedule_all_kept weeklySchedule_assigned
  by (simp add: weeklySchedule_of_def [symmetric]) (simp add: weeklySchedule_of_def)

theorem day_numbers_are_block_positions_witness:
  "map dayNum (weeklySchedule_of asciiLowerCase (js ''### Day 7'' @ [10] @ js ''Carve'' @ [10] @ js ''### Day 3'' @ [10] @ js ''Rest''))
     = [1, 2] \<and>
   length (dayBlocks (js ''### Day 7'' @ [10] @ js ''Carve'' @ [10] @ js ''### Day 3'' @ [10] @ js ''Rest'')) = 2 \<and>
   (\<exists>p. parseTrainingPlan asciiLowerCase (js ''## Weekly Schedule'' @ [10] @ js ''### Day 7'' @ [10] @ js ''Carve'')
          = Inr (Some p) \<and> map dayNum (weeklySchedule p) = [1])"
  using day_numbers_are_block_positions
    [where toLowerCase = asciiLowerCase and idx = 0 and block = "[]"
       and content = "js ''### Day 7'' @ [10] @ js ''Carve'' @ [10] @ js ''### Day 3'' @ [10] @ js ''Rest''"
       and ?text = "js ''## Weekly Schedule'' @ [10] @ js ''### Day 7'' @ [10] @ js ''Carve''"]
  by (simp add: eval2_defs content_of_def)

text \<open>
  C8, as the specification states it, fails: a block that is discarded leaves a gap, and
  the only returned day has number 2.
\<close>

theorem day_number_gap_example:
  "plan_field (map dayNum \<circ> weeklySchedule)
     (parseTrainingPlan asciiLowerCase
        (js ''## Weekly Schedule'' @ [10] @ js ''### Day 1'' @ [10] @ js ''---'' @ [10] @
         js ''### Day 2'' @ [10] @ js ''Carving day''))
   = Some [2]"
  by (simp add: eval_defs)

section \<open>C9: a heading that satisfies several tests\<close>

text \<open>
  C9. For every document with a single Section, under a heading that is kept as a key,
  every typed field is set from that Section's body exactly when the heading satisfies
  the field's own test, whatever the other tests say: a heading that satisfies two tests,
  such as \<open>Progress and Priorities\<close>, populates both fields (here \<open>checkpoints\<close> and
  \<open>weekPlan\<close>) from the one body.
\<close>

theorem single_section_fields_independent:
  assumes "doc_sections (split_on 10 text) = [(h, body)]"
    and "h \<noteq> []" and "h \<noteq> js ''__proto__''"
  shows "\<exists>p. parseTrainingPlan toLowerCase text = Inr (Some p) \<and>
     bigPicture p = (if is_bigPicture toLowerCase h then bullets (join_lines body) else []) \<and>
     immediateFocus p =
       (if is_immediateFocus toLowerCase h
        then focus_of (immediateFocus initial_sections) (join_lines body)
        else immediateFocus initial_sections) \<and>
     (if is_weekPlan toLowerCase h then weekPlan_of toLowerCase (join_lines body) = Inr (weekPlan p)
      else weekPlan p = []) \<and>
     strengths p = (if is_strengths toLowerCase h then bullets (join_lines body) else []) \<and>
     drills p = (if is_drills toLowerCase h then drills_of toLowerCase (join_lines body) else []) \<and>
     dailyPlan p = (if is_dailyPlan toLowerCase h then dailyPlan_of (join_lines body) else []) \<and>
     weeklySchedule p =
       (if is_weeklySchedule toLowerCase h then weeklySchedule_of toLowerCase (join_lines body) else []) \<and>
     progression p =
       (if is_progression toLowerCase h
        then progression_of (progression initial_sections) (join_lines body)
        else progression initial_sections) \<and>
     sessionPlan p = (if is_sessionPlan toLowerCase h then sessionPlan_of (join_lines body) else []) \<and>
     checkpoints p = (if is_checkpoints toLowerCase h then bullets (join_lines body) else []) \<and>
     mentalCues p = (if is_mentalCues toLowerCase h then bullets (join_lines body) else []) \<and>
     traps p = (if is_traps toLowerCase h then bullets (join_lines body) else [])"
  unfolding single_section_plan [OF assms]
  by (simp add: bigPicture_apply_key immediateFocus_apply_key weekPlan_apply_key
      strengths_apply_key drills_apply_key dailyPlan_apply_key weeklySchedule_apply_key
      progression_apply_key sessionPlan_apply_key checkpoints_apply_key mentalCues_apply_key
      traps_apply_key weekPlan_of_Inr)
    (simp add: initial_sections_def)

theorem single_section_fields_independent_witness:
  "\<exists>p. parseTrainingPlan asciiLowerCase
          (js ''## Progress and Priorities'' @ [10] @ js ''- Hips level'' @ [10] @
           js ''### Priority 1: Balance'' @ [10] @ js ''Drill: One ski'') = Inr (Some p) \<and>
       checkpoints p = [js ''Hips level''] \<and>
       map priority_drill (weekPlan p) = [[], js ''One ski''] \<and>
       traps p = []"
  using single_section_fields_independent
    [where toLowerCase = asciiLowerCase
       and ?text = "js ''## Progress and Priorities'' @ [10] @ js ''- Hips level'' @ [10] @
           js ''### Priority 1: Balance'' @ [10] @ js ''Drill: One ski''"
       and h = "js ''Progress and Priorities''"
       and body = "[js ''- Hips level'', js ''### Priority 1: Balance'', js ''Drill: One ski'']"]
  by (simp add: eval2_defs)

section \<open>C10: the score colour\<close>

text \<open>
  C10. \<open>getScoreColor\<close> is total and partitions its input: \<open>score-unknown\<close> for
  \<open>null\<close> and \<open>undefined\<close>, \<open>score-good\<close> from 70 up, \<open>score-medium\<close> from 50 up to
  below 70, and \<open>score-poor\<close> for every other number, \<open>NaN\<close> included.
\<close>

theorem getScoreColor_partition:
  "(s = Null \<or> s = Undefined \<longrightarrow> getScoreColor s = ''score-unknown'') \<and>
   (70 \<le> r \<longrightarrow> getScoreColor (Number (Finite r)) = ''score-good'') \<and>
   (50 \<le> r \<and> r < 70 \<longrightarrow> getScoreColor (Number (Finite r)) = ''score-medium'') \<and>
   (r < 50 \<longrightarrow> getScoreColor (Number (Finite r)) = ''score-poor'') \<and>
   getScoreColor (Number PosInfinity) = ''score-good'' \<and>
   getScoreColor (Number NegInfinity) = ''score-poor'' \<and>
   getScoreColor (Number NaN) = ''score-poor'' \<and>
   getScoreColor x \<in> {''score-unknown'', ''score-good'', ''score-medium'', ''score-poor''}"
  by (cases x) auto

theorem getScoreColor_partition_witness:
  "getScoreColor Null = ''score-unknown'' \<and>
   getScoreColor Undefined = ''score-unknown'' \<and>
   getScoreColor (Number (Finite 85)) = ''score-good'' \<and>
   getScoreColor (Number (Finite 60)) = ''score-medium'' \<and>
   getScoreColor (Number (Finite 12)) = ''score-poor''"
  using getScoreColor_partition [of Null 85] getScoreColor_partition [of Undefined 60]
    getScoreColor_partition [of Null 12]
  by simp

end
